theory Spec2Isabelle
  imports Main "HOL-Library.Sublist"
begin

section \<open>Go errors\<close>

text \<open>
  A Go \<open>error\<close> value is either nil or an error; it is modelled as \<open>error option\<close>
  with \<open>None\<close> for nil. \<open>Errorf\<close> is an error made by \<open>fmt.Errorf\<close>, \<open>ApiError\<close>
  an error handed back by one of the client libraries, \<open>Wrapped e m\<close> the error
  \<open>e\<close> annotated with the message \<open>m\<close> by \<open>errors.Wrap\<close>, and \<open>Panic\<close> a run-time
  panic (a nil pointer dereference), which ends the process instead of being returned.
\<close>

datatype error =
    Errorf string
  | ApiError string
  | Wrapped error string
  | Panic string

text \<open>
  \<open>errors.Wrap\<close> of github.com/pkg/errors: "If err is nil, Wrap returns nil."
\<close>

definition Wrap :: "error option \<Rightarrow> string \<Rightarrow> error option" where
  "Wrap err message = (case err of None \<Rightarrow> None | Some e \<Rightarrow> Some (Wrapped e message))"

section \<open>Kubernetes and GitLab objects\<close>

record ObjectMeta =
  meta_Name :: string
  meta_Namespace :: string
  meta_Labels :: "(string \<times> string) list"

record ObjectReference =
  ref_Kind :: string
  ref_Namespace :: string
  ref_Name :: string

record ServiceAccount =
  sa_ObjectMeta :: ObjectMeta
  sa_Secrets :: "ObjectReference list"
  sa_ImagePullSecrets :: "string list"
  sa_AutomountServiceAccountToken :: "bool option"

text \<open>\<open>secret_Data\<close> is Go's \<open>map[string][]byte\<close>; a missing key reads as the empty slice.\<close>

record Secret =
  secret_ObjectMeta :: ObjectMeta
  secret_Data :: "string \<rightharpoonup> string"
  secret_Type :: string

record Subject =
  subj_Kind :: string
  subj_APIGroup :: string
  subj_Name :: string
  subj_Namespace :: string

record RoleRef =
  role_APIGroup :: string
  role_Kind :: string
  role_Name :: string

record ClusterRoleBinding =
  crb_ObjectMeta :: ObjectMeta
  crb_Subjects :: "Subject list"
  crb_RoleRef :: RoleRef

text \<open>The zero values of the Go structs: every field empty.\<close>

definition ObjectMeta_zero :: ObjectMeta where
  "ObjectMeta_zero = \<lparr>meta_Name = '''', meta_Namespace = '''', meta_Labels = []\<rparr>"

definition ServiceAccount_zero :: ServiceAccount where
  "ServiceAccount_zero =
     \<lparr>sa_ObjectMeta = ObjectMeta_zero, sa_Secrets = [], sa_ImagePullSecrets = [],
      sa_AutomountServiceAccountToken = None\<rparr>"

text \<open>
  The GitLab client made by \<open>gitlab.NewClient\<close>: the private token and the base URL
  (empty for the library's default, otherwise what \<open>SetBaseURL\<close> was given).
\<close>

record Client =
  cl_token :: string
  cl_baseURL :: string

text \<open>
  The request of the cluster-add endpoints. \<open>AddClusterOptions\<close> and
  \<open>AddGroupClusterOptions\<close> of go-gitlab have the same fields, as have their
  platform options; pointer fields that the program leaves nil are left out.
\<close>

record AddPlatformKubernetesOptions =
  pk_APIURL :: string
  pk_Token :: string
  pk_CaCert :: string

record AddClusterOptions =
  co_Name :: string
  co_EnvironmentScope :: string
  co_PlatformKubernetes :: AddPlatformKubernetesOptions

record Project =
  project_WebURL :: string

record Group =
  group_WebURL :: string

text \<open>\<open>Project\<close> and \<open>Group\<close> are pointer fields of the responses, so they may be nil.\<close>

record ProjectCluster =
  pc_ID :: int
  pc_Project :: "Project option"

record GroupCluster =
  gc_ID :: int
  gc_Group :: "Group option"

section \<open>The world outside the process\<close>

datatype request =
    GetServiceAccount string string
  | PostServiceAccount string ServiceAccount
  | GetClusterRoleBinding string
  | PostClusterRoleBinding ClusterRoleBinding
  | GetSecret string string
  | GetGroup Client string
  | GetProject Client string
  | GroupAddCluster Client string AddClusterOptions
  | ProjectAddCluster Client string AddClusterOptions

text \<open>
  The cluster behind the Kubernetes client and the GitLab server behind the GitLab
  client. The cluster is a store of objects (ServiceAccounts and Secrets by namespace
  and name, ClusterRoleBindings by name) and \<open>faults\<close>, the requests that fail whatever
  the store holds (network, authorisation). GitLab answers each call by a function of
  the client and the arguments. \<open>requests\<close> records every request sent, in order,
  \<open>refused\<close> every call that the Kubernetes client turned down without sending
  anything, and \<open>stdout\<close> what the process has printed.
\<close>

record world =
  serviceaccounts :: "string \<times> string \<rightharpoonup> ServiceAccount"
  secrets :: "string \<times> string \<rightharpoonup> Secret"
  clusterrolebindings :: "string \<rightharpoonup> ClusterRoleBinding"
  faults :: "request \<Rightarrow> error option"
  gitlab_GetGroup :: "Client \<Rightarrow> string \<Rightarrow> error option"
  gitlab_GetProject :: "Client \<Rightarrow> string \<Rightarrow> error option"
  gitlab_GroupAddCluster :: "Client \<Rightarrow> string \<Rightarrow> AddClusterOptions \<Rightarrow> error + GroupCluster"
  gitlab_ProjectAddCluster :: "Client \<Rightarrow> string \<Rightarrow> AddClusterOptions \<Rightarrow> error + ProjectCluster"
  requests :: "request list"
  refused :: "request list"
  stdout :: string

definition sent :: "request \<Rightarrow> world \<Rightarrow> world" where
  "sent r w = w\<lparr>requests := requests w @ [r]\<rparr>"

definition refuse :: "request \<Rightarrow> world \<Rightarrow> world" where
  "refuse r w = w\<lparr>refused := refused w @ [r]\<rparr>"

definition Println :: "string \<Rightarrow> world \<Rightarrow> world" where
  "Println s w = w\<lparr>stdout := stdout w @ s @ [CHR 0x0A]\<rparr>"

definition Printf :: "string \<Rightarrow> world \<Rightarrow> world" where
  "Printf s w = w\<lparr>stdout := stdout w @ s\<rparr>"

subsection \<open>The Kubernetes resource API: get and create\<close>

text \<open>
  A GET by name goes through \<open>Request.Name\<close> of client-go, which turns down a
  zero-length name with this error; the request is then never sent.
\<close>

definition name_may_not_be_empty :: error where
  "name_may_not_be_empty = ApiError ''resource name may not be empty''"

text \<open>
  What the cluster answers to a GET that is sent: the injected fault if there is one,
  otherwise the stored object, or a not-found error. A GET leaves the store as it is.
\<close>

definition ServiceAccounts_lookup :: "string \<Rightarrow> string \<Rightarrow> world \<Rightarrow> error + ServiceAccount" where
  "ServiceAccounts_lookup ns name w =
     (case faults w (GetServiceAccount ns name) of
        Some e \<Rightarrow> Inl e
      | None \<Rightarrow>
          (case serviceaccounts w (ns, name) of
             None \<Rightarrow> Inl (ApiError ''not found'')
           | Some sa \<Rightarrow> Inr sa))"

definition ServiceAccounts_Get :: "string \<Rightarrow> string \<Rightarrow> world \<Rightarrow> (error + ServiceAccount) \<times> world" where
  "ServiceAccounts_Get ns name w =
     (if name = '''' then (Inl name_may_not_be_empty, refuse (GetServiceAccount ns name) w)
      else (ServiceAccounts_lookup ns name w, sent (GetServiceAccount ns name) w))"

text \<open>
  A CREATE fails on a fault or when the name is taken; otherwise the object is stored
  in the namespace of the call.
\<close>

definition ServiceAccounts_Create :: "string \<Rightarrow> ServiceAccount \<Rightarrow> world \<Rightarrow> (error + ServiceAccount) \<times> world" where
  "ServiceAccounts_Create ns sa w =
     (case faults w (PostServiceAccount ns sa) of
        Some e \<Rightarrow> (Inl e, sent (PostServiceAccount ns sa) w)
      | None \<Rightarrow>
          (case serviceaccounts w (ns, meta_Name (sa_ObjectMeta sa)) of
             Some _ \<Rightarrow> (Inl (ApiError ''already exists''), sent (PostServiceAccount ns sa) w)
           | None \<Rightarrow>
               (let stored = sa\<lparr>sa_ObjectMeta := (sa_ObjectMeta sa)\<lparr>meta_Namespace := ns\<rparr>\<rparr>
                in (Inr stored,
                    sent (PostServiceAccount ns sa)
                      (w\<lparr>serviceaccounts := (serviceaccounts w)((ns, meta_Name (sa_ObjectMeta sa)) \<mapsto> stored)\<rparr>)))))"

definition ClusterRoleBindings_lookup :: "string \<Rightarrow> world \<Rightarrow> error + ClusterRoleBinding" where
  "ClusterRoleBindings_lookup name w =
     (case faults w (GetClusterRoleBinding name) of
        Some e \<Rightarrow> Inl e
      | None \<Rightarrow>
          (case clusterrolebindings w name of
             None \<Rightarrow> Inl (ApiError ''not found'')
           | Some crb \<Rightarrow> Inr crb))"

definition ClusterRoleBindings_Get :: "string \<Rightarrow> world \<Rightarrow> (error + ClusterRoleBinding) \<times> world" where
  "ClusterRoleBindings_Get name w =
     (if name = '''' then (Inl name_may_not_be_empty, refuse (GetClusterRoleBinding name) w)
      else (ClusterRoleBindings_lookup name w, sent (GetClusterRoleBinding name) w))"

definition ClusterRoleBindings_Create :: "ClusterRoleBinding \<Rightarrow> world \<Rightarrow> (error + ClusterRoleBinding) \<times> world" where
  "ClusterRoleBindings_Create crb w =
     (case faults w (PostClusterRoleBinding crb) of
        Some e \<Rightarrow> (Inl e, sent (PostClusterRoleBinding crb) w)
      | None \<Rightarrow>
          (case clusterrolebindings w (meta_Name (crb_ObjectMeta crb)) of
             Some _ \<Rightarrow> (Inl (ApiError ''already exists''), sent (PostClusterRoleBinding crb) w)
           | None \<Rightarrow>
               (Inr crb,
                sent (PostClusterRoleBinding crb)
                  (w\<lparr>clusterrolebindings := (clusterrolebindings w)(meta_Name (crb_ObjectMeta crb) \<mapsto> crb)\<rparr>))))"

definition Secrets_lookup :: "string \<Rightarrow> string \<Rightarrow> world \<Rightarrow> error + Secret" where
  "Secrets_lookup ns name w =
     (case faults w (GetSecret ns name) of
        Some e \<Rightarrow> Inl e
      | None \<Rightarrow>
          (case secrets w (ns, name) of
             None \<Rightarrow> Inl (ApiError ''not found'')
           | Some s \<Rightarrow> Inr s))"

definition Secrets_Get :: "string \<Rightarrow> string \<Rightarrow> world \<Rightarrow> (error + Secret) \<times> world" where
  "Secrets_Get ns name w =
     (if name = '''' then (Inl name_may_not_be_empty, refuse (GetSecret ns name) w)
      else (Secrets_lookup ns name w, sent (GetSecret ns name) w))"

subsection \<open>The GitLab API\<close>

definition Groups_GetGroup :: "Client \<Rightarrow> string \<Rightarrow> world \<Rightarrow> error option \<times> world" where
  "Groups_GetGroup c gid w = (gitlab_GetGroup w c gid, sent (GetGroup c gid) w)"

definition Projects_GetProject :: "Client \<Rightarrow> string \<Rightarrow> world \<Rightarrow> error option \<times> world" where
  "Projects_GetProject c pid w = (gitlab_GetProject w c pid, sent (GetProject c pid) w)"

definition GroupCluster_AddCluster ::
    "Client \<Rightarrow> string \<Rightarrow> AddClusterOptions \<Rightarrow> world \<Rightarrow> (error + GroupCluster) \<times> world" where
  "GroupCluster_AddCluster c gid opt w =
     (gitlab_GroupAddCluster w c gid opt, sent (GroupAddCluster c gid opt) w)"

definition ProjectCluster_AddCluster ::
    "Client \<Rightarrow> string \<Rightarrow> AddClusterOptions \<Rightarrow> world \<Rightarrow> (error + ProjectCluster) \<times> world" where
  "ProjectCluster_AddCluster c pid opt w =
     (gitlab_ProjectAddCluster w c pid opt, sent (ProjectAddCluster c pid opt) w)"

subsection \<open>The local machine\<close>

record RestConfig =
  rc_Host :: string
  rc_CAData :: string

record Context =
  ctx_Cluster :: string

text \<open>\<open>api_Contexts\<close> is Go's \<open>map[string]*Context\<close>, kept as an association list.\<close>

record KubeAPIConfig =
  api_Contexts :: "(string \<times> Context) list"
  api_CurrentContext :: string

datatype Clientset = Clientset RestConfig

text \<open>
  What \<open>Complete\<close> reads from the machine it runs on, each through a library call:
  the environment, the home directory, path joining, and the kubeconfig file
  (as a REST configuration, as a client configuration, and the clientset built from it).
\<close>

record host =
  Getenv :: "string \<Rightarrow> string"
  UserHomeDir :: "error + string"
  filepath_Join :: "string list \<Rightarrow> string"
  BuildConfigFromFlags :: "string \<Rightarrow> error + RestConfig"
  LoadFromFile :: "string \<Rightarrow> error + KubeAPIConfig"
  NewForConfig :: "RestConfig \<Rightarrow> error + Clientset"

section \<open>The options aggregate\<close>

record ConfigFlags =
  cf_KubeConfig :: string

record GitLabBootstrapOptions =
  ConfigFlags :: ConfigFlags
  GitLabAPIToken :: string
  GitLabProjectID :: string
  GitLabURL :: string
  GitLabGroupCluster :: bool
  KubeConfig :: string
  RestConfig :: "RestConfig option"
  KubeAPI :: "KubeAPIConfig option"
  KubeClientSet :: "Clientset option"
  ClusterName :: string
  ClusterHost :: string
  ClusterCA :: string
  ServiceAccountToken :: string
  GitLabAPI :: "Client option"

definition nil_dereference :: error where
  "nil_dereference = Panic ''invalid memory address or nil pointer dereference''"

text \<open>
  \<open>NewGitLabBootstrapOptions\<close>: every field at its zero value; \<open>NewConfigFlags\<close> points the
  kubeconfig flag at the empty string. The command's flags then write
  \<open>GitLabAPIToken\<close>, \<open>GitLabURL\<close>, \<open>GitLabGroupCluster\<close> and the kubeconfig flag.
\<close>

definition NewGitLabBootstrapOptions :: GitLabBootstrapOptions where
  "NewGitLabBootstrapOptions =
     \<lparr>ConfigFlags = \<lparr>cf_KubeConfig = ''''\<rparr>,
      GitLabAPIToken = '''', GitLabProjectID = '''', GitLabURL = '''',
      GitLabGroupCluster = False, KubeConfig = '''',
      RestConfig = None, KubeAPI = None, KubeClientSet = None,
      ClusterName = '''', ClusterHost = '''', ClusterCA = '''',
      ServiceAccountToken = '''', GitLabAPI = None\<rparr>"

section \<open>Complete\<close>

definition Complete :: "host \<Rightarrow> GitLabBootstrapOptions \<Rightarrow> string list \<Rightarrow> error option \<times> GitLabBootstrapOptions" where
  "Complete h opts args =
     (if length args \<noteq> 1 then (Some (Errorf ''GitLab project id is required''), opts)
      else
        let o1 = opts\<lparr>GitLabProjectID := args ! 0\<rparr>;
            o2 = (if GitLabAPIToken o1 = '''' then o1\<lparr>GitLabAPIToken := Getenv h ''GITLAB_API_TOKEN''\<rparr> else o1)
        in
        case (if cf_KubeConfig (ConfigFlags o2) \<noteq> ''''
              then Inr (o2\<lparr>KubeConfig := cf_KubeConfig (ConfigFlags o2)\<rparr>)
              else (case UserHomeDir h of
                      Inl err \<Rightarrow> Inl err
                    | Inr home \<Rightarrow> Inr (o2\<lparr>KubeConfig := filepath_Join h [home, ''.kube'', ''config'']\<rparr>))) of
          Inl err \<Rightarrow> (Wrap (Some err) (''can'' @ [CHR 0x27] @ ''t get home dir''), o2)
        | Inr o3 \<Rightarrow>
            (case BuildConfigFromFlags h (KubeConfig o3) of
               Inl err \<Rightarrow> (Wrap (Some err) ''error building config from kubeconfig path'', o3)
             | Inr config \<Rightarrow>
                 let o4 = o3\<lparr>RestConfig := Some config, ClusterHost := rc_Host config,
                             ClusterCA := rc_CAData config\<rparr>
                 in
                 (case LoadFromFile h (KubeConfig o4) of
                    Inl err \<Rightarrow> (Wrap (Some err) ''error creating clientcmdapi from kubeconfig path'', o4)
                  | Inr api \<Rightarrow>
                      let o5 = o4\<lparr>KubeAPI := Some api\<rparr> in
                      if length (api_Contexts api) < 1
                      then (Some (Errorf ''no contexts found in kubeconfig''), o5)
                      else if api_CurrentContext api = ''''
                      then (Some (Errorf ''no context currently set''), o5)
                      else
                        (case map_of (api_Contexts api) (api_CurrentContext api) of
                           None \<Rightarrow> (Some nil_dereference, o5)
                         | Some ctx \<Rightarrow>
                             let o6 = o5\<lparr>ClusterName := ctx_Cluster ctx\<rparr> in
                             (case NewForConfig h config of
                                Inl err \<Rightarrow> (Wrap (Some err) ''error creating clientset from config'', o6)
                              | Inr clientset \<Rightarrow> (None, o6\<lparr>KubeClientSet := Some clientset\<rparr>))))))"

section \<open>Validate\<close>

text \<open>
  \<open>SetBaseURL\<close> returns an error that the program ignores; the client is modelled as
  holding the URL it was given.
\<close>

definition Validate :: "GitLabBootstrapOptions \<Rightarrow> world \<Rightarrow> error option \<times> GitLabBootstrapOptions \<times> world" where
  "Validate opts w =
     (if GitLabAPIToken opts = '''' then (Some (Errorf ''GitLab API token is required''), opts, w)
      else if GitLabProjectID opts = '''' then (Some (Errorf ''GitLab project id is required''), opts, w)
      else
        let c0 = \<lparr>cl_token = GitLabAPIToken opts, cl_baseURL = ''''\<rparr>;
            c = (if GitLabURL opts \<noteq> '''' then c0\<lparr>cl_baseURL := GitLabURL opts\<rparr> else c0);
            o1 = opts\<lparr>GitLabAPI := Some c\<rparr>
        in
        if GitLabGroupCluster o1
        then (case Groups_GetGroup c (GitLabProjectID o1) w of
                (Some err, w1) \<Rightarrow> (Wrap (Some err) ''unable to get GitLab group'', o1, w1)
              | (None, w1) \<Rightarrow> (None, o1, w1))
        else (case Projects_GetProject c (GitLabProjectID o1) w of
                (Some err, w1) \<Rightarrow> (Wrap (Some err) ''unable to get GitLab project'', o1, w1)
              | (None, w1) \<Rightarrow> (None, o1, w1)))"

section \<open>The cluster bootstrapper\<close>

definition CreateServiceAccount :: "GitLabBootstrapOptions \<Rightarrow> world \<Rightarrow> error option \<times> world" where
  "CreateServiceAccount opts w =
     (case KubeClientSet opts of
        None \<Rightarrow> (Some nil_dereference, w)
      | Some _ \<Rightarrow>
          (case ServiceAccounts_Get ''kube-system'' ''gitlab-admin'' w of
             (Inl err, w1) \<Rightarrow>
               (let saSpec = ServiceAccount_zero\<lparr>sa_ObjectMeta := ObjectMeta_zero\<lparr>meta_Name := ''gitlab-admin''\<rparr>\<rparr>
                in case ServiceAccounts_Create ''kube-system'' saSpec w1 of
                     (Inl err', w2) \<Rightarrow> (Wrap (Some err') ''unable to create service account'', w2)
                   | (Inr _, w2) \<Rightarrow> (None, w2))
           | (Inr _, w1) \<Rightarrow> (None, Println ''Using existing gitlab-admin account'' w1)))"

definition CreateClusterRoleBinding :: "GitLabBootstrapOptions \<Rightarrow> world \<Rightarrow> error option \<times> world" where
  "CreateClusterRoleBinding opts w =
     (let crbSubject = \<lparr>subj_Kind = ''ServiceAccount'', subj_APIGroup = '''',
                        subj_Name = ''gitlab-admin'', subj_Namespace = ''kube-system''\<rparr>;
          roleRef = \<lparr>role_APIGroup = '''', role_Kind = ''ClusterRole'', role_Name = ''cluster-admin''\<rparr>;
          crbSpec = \<lparr>crb_ObjectMeta = ObjectMeta_zero\<lparr>meta_Name := ''gitlab-admin''\<rparr>,
                     crb_Subjects = [crbSubject], crb_RoleRef = roleRef\<rparr>
      in case KubeClientSet opts of
           None \<Rightarrow> (Some nil_dereference, w)
         | Some _ \<Rightarrow>
             (case ClusterRoleBindings_Get ''gitlab-admin'' w of
                (Inl err, w1) \<Rightarrow>
                  (case ClusterRoleBindings_Create crbSpec w1 of
                     (Inl err', w2) \<Rightarrow> (Wrap (Some err') ''unable to create clusterrolebinding'', w2)
                   | (Inr _, w2) \<Rightarrow> (None, w2))
              | (Inr _, w1) \<Rightarrow> (None, Println ''Using existing clusterrolebinding'' w1)))"

section \<open>The token extractor\<close>

text \<open>
  \<open>regexp.MatchString("^gitlab-admin-token-", s)\<close>: the pattern is a constant that
  compiles, so the error is always nil; \<open>^\<close> anchors at the start of the text and every
  other character of the pattern is a literal, so the match holds exactly when \<open>s\<close>
  begins with \<open>gitlab-admin-token-\<close>.
\<close>

definition MatchString_gitlab_admin_token :: "string \<Rightarrow> error + bool" where
  "MatchString_gitlab_admin_token s = Inr (prefix ''gitlab-admin-token-'' s)"

text \<open>
  The loop over \<open>sa.Secrets\<close>: the value of \<open>tokenName\<close> after the loop (its zero value,
  the empty string, when no reference matched), or the error the loop returned with.
\<close>

fun scan_Secrets :: "ObjectReference list \<Rightarrow> error option + string" where
  "scan_Secrets [] = Inr ''''"
| "scan_Secrets (secret # rest) =
     (case MatchString_gitlab_admin_token (ref_Name secret) of
        Inl err \<Rightarrow> Inl (Wrap (Some err) ''error matching regexp'')
      | Inr match \<Rightarrow> if match then Inr (ref_Name secret) else scan_Secrets rest)"

text \<open>
  \<open>SaveServiceAccountToken\<close>. The methods reach the cluster through \<open>o.KubeClientSet\<close>,
  a pointer that is nil until \<open>Complete\<close> has set it. The variable \<open>err\<close> is assigned by
  the Secret GET; on the path that reads the token the GET has succeeded, so \<open>err\<close> is
  nil there, and that nil is what the empty-token branch hands to \<open>errors.Wrap\<close>.
\<close>

definition SaveServiceAccountToken ::
    "GitLabBootstrapOptions \<Rightarrow> world \<Rightarrow> error option \<times> GitLabBootstrapOptions \<times> world" where
  "SaveServiceAccountToken opts w =
     (case KubeClientSet opts of
        None \<Rightarrow> (Some nil_dereference, opts, w)
      | Some _ \<Rightarrow>
          (case ServiceAccounts_Get ''kube-system'' ''gitlab-admin'' w of
             (Inl err, w1) \<Rightarrow> (Wrap (Some err) ''unable to get serviceaccount'', opts, w1)
           | (Inr sa, w1) \<Rightarrow>
               (case scan_Secrets (sa_Secrets sa) of
                  Inl r \<Rightarrow> (r, opts, w1)
                | Inr tokenName \<Rightarrow>
                    (case Secrets_Get ''kube-system'' tokenName w1 of
                       (Inl err, w2) \<Rightarrow> (Wrap (Some err) ''unable to get serviceaccount token'', opts, w2)
                     | (Inr secret, w2) \<Rightarrow>
                         (let err = None;
                              token = (case secret_Data secret ''token'' of None \<Rightarrow> '''' | Some b \<Rightarrow> b)
                          in if token = ''''
                             then (Wrap err ''no data in serviceaccount token'', opts, w2)
                             else (None, opts\<lparr>ServiceAccountToken := token\<rparr>, w2))))))"

section \<open>The GitLab cluster registrar\<close>

text \<open>The verb \<open>%d\<close> of \<open>fmt.Sprintf\<close>: an integer in decimal, with a minus sign when negative.\<close>

fun decimal :: "nat \<Rightarrow> string" where
  "decimal n =
     (if n < 10 then [''0123456789'' ! n]
      else decimal (n div 10) @ [''0123456789'' ! (n mod 10)])"

definition format_d :: "int \<Rightarrow> string" where
  "format_d i = (if i < 0 then CHR ''-'' # decimal (nat (- i)) else decimal (nat i))"

definition clusterOpts :: "GitLabBootstrapOptions \<Rightarrow> AddClusterOptions" where
  "clusterOpts opts =
     \<lparr>co_Name = ClusterName opts,
      co_EnvironmentScope = ''*'',
      co_PlatformKubernetes =
        \<lparr>pk_APIURL = ClusterHost opts, pk_Token = ServiceAccountToken opts, pk_CaCert = ClusterCA opts\<rparr>\<rparr>"

definition addClusterToGroup :: "GitLabBootstrapOptions \<Rightarrow> world \<Rightarrow> error option \<times> world" where
  "addClusterToGroup opts w =
     (case GitLabAPI opts of
        None \<Rightarrow> (Some nil_dereference, w)
      | Some c \<Rightarrow>
          (case GroupCluster_AddCluster c (GitLabProjectID opts) (clusterOpts opts) w of
             (Inl err, w1) \<Rightarrow> (Wrap (Some err) ''unable to assign kubernetes cluster to group'', w1)
           | (Inr gc, w1) \<Rightarrow>
               (case gc_Group gc of
                  None \<Rightarrow> (Some nil_dereference, w1)
                | Some g \<Rightarrow>
                    (let gitlabClusterURL = group_WebURL g @ ''/clusters/'' @ format_d (gc_ID gc)
                     in (None,
                         Printf (''To finish up visit: '' @ gitlabClusterURL @ '' and install Helm and Runner.'' @ [CHR 0x0A])
                           (Println ''Cluster successfully added to group!'' w1))))))"

definition addClusterToProject :: "GitLabBootstrapOptions \<Rightarrow> world \<Rightarrow> error option \<times> world" where
  "addClusterToProject opts w =
     (case GitLabAPI opts of
        None \<Rightarrow> (Some nil_dereference, w)
      | Some c \<Rightarrow>
          (case ProjectCluster_AddCluster c (GitLabProjectID opts) (clusterOpts opts) w of
             (Inl err, w1) \<Rightarrow> (Wrap (Some err) ''unable to assign kubernetes cluster to project'', w1)
           | (Inr pc, w1) \<Rightarrow>
               (case pc_Project pc of
                  None \<Rightarrow> (Some nil_dereference, w1)
                | Some p \<Rightarrow>
                    (let gitlabClusterURL = project_WebURL p @ ''/clusters/'' @ format_d (pc_ID pc)
                     in (None,
                         Printf (''To finish up visit: '' @ gitlabClusterURL @ '' and install Helm and Runner.'' @ [CHR 0x0A])
                           (Println ''Cluster successfully added to project!'' w1))))))"

definition AddClusterToGitLab :: "GitLabBootstrapOptions \<Rightarrow> world \<Rightarrow> error option \<times> world" where
  "AddClusterToGitLab opts w =
     (if GitLabGroupCluster opts
      then (case addClusterToGroup opts w of
              (Some err, w1) \<Rightarrow> (Some err, w1)
            | (None, w1) \<Rightarrow> (None, w1))
      else (case addClusterToProject opts w of
              (Some err, w1) \<Rightarrow> (Some err, w1)
            | (None, w1) \<Rightarrow> (None, w1)))"

section \<open>Run and the command\<close>

definition Run :: "GitLabBootstrapOptions \<Rightarrow> world \<Rightarrow> error option \<times> GitLabBootstrapOptions \<times> world" where
  "Run opts w =
     (case CreateServiceAccount opts w of
        (Some err, w1) \<Rightarrow> (Some err, opts, w1)
      | (None, w1) \<Rightarrow>
          (case CreateClusterRoleBinding opts w1 of
             (Some err, w2) \<Rightarrow> (Some err, opts, w2)
           | (None, w2) \<Rightarrow>
               (case SaveServiceAccountToken opts w2 of
                  (Some err, o3, w3) \<Rightarrow> (Some err, o3, w3)
                | (None, o3, w3) \<Rightarrow>
                    (case AddClusterToGitLab o3 w3 of
                       (Some err, w4) \<Rightarrow> (Some err, o3, w4)
                     | (None, w4) \<Rightarrow> (None, o3, w4)))))"

text \<open>The \<open>RunE\<close> closure of \<open>NewCmdGitLabBootstrap\<close>: Complete, Validate, Run.\<close>

definition RunE :: "host \<Rightarrow> GitLabBootstrapOptions \<Rightarrow> string list \<Rightarrow> world \<Rightarrow> error option \<times> GitLabBootstrapOptions \<times> world" where
  "RunE h opts args w =
     (case Complete h opts args of
        (Some err, o1) \<Rightarrow> (Some err, o1, w)
      | (None, o1) \<Rightarrow>
          (case Validate o1 w of
             (Some err, o2, w2) \<Rightarrow> (Some err, o2, w2)
           | (None, o2, w2) \<Rightarrow>
               (case Run o2 w2 of
                  (Some err, o3, w3) \<Rightarrow> (Some err, o3, w3)
                | (None, o3, w3) \<Rightarrow> (None, o3, w3))))"

section \<open>Which GitLab target a request goes to\<close>

datatype target = Group | Project

fun target_of :: "request \<Rightarrow> target option" where
  "target_of (GetGroup c i) = Some Group"
| "target_of (GroupAddCluster c i opt) = Some Group"
| "target_of (GetProject c i) = Some Project"
| "target_of (ProjectAddCluster c i opt) = Some Project"
| "target_of _ = None"

definition calls_to :: "target \<Rightarrow> world \<Rightarrow> request list" where
  "calls_to t w = filter (\<lambda>r. target_of r = Some t) (requests w)"

section \<open>Example invocations\<close>

text \<open>
  Options as \<open>Complete\<close> and \<open>Validate\<close> leave them for project \<open>7\<close>, and a cluster
  and a GitLab server to run against: GitLab accepts every call and answers a project
  cluster-add with cluster 42 of \<open>https://gitlab.example/proj\<close>.
\<close>

definition example_config :: RestConfig where
  "example_config = \<lparr>rc_Host = ''https://k8s.example:6443'', rc_CAData = ''CA''\<rparr>"

definition example_client :: Client where
  "example_client = \<lparr>cl_token = ''glpat'', cl_baseURL = ''''\<rparr>"

definition example_opts :: GitLabBootstrapOptions where
  "example_opts =
     \<lparr>ConfigFlags = \<lparr>cf_KubeConfig = ''/k/config''\<rparr>,
      GitLabAPIToken = ''glpat'', GitLabProjectID = ''7'', GitLabURL = '''',
      GitLabGroupCluster = False, KubeConfig = ''/k/config'',
      RestConfig = Some example_config,
      KubeAPI = Some \<lparr>api_Contexts = [(''dev'', \<lparr>ctx_Cluster = ''dev-cluster''\<rparr>)], api_CurrentContext = ''dev''\<rparr>,
      KubeClientSet = Some (Clientset example_config),
      ClusterName = ''dev-cluster'', ClusterHost = ''https://k8s.example:6443'', ClusterCA = ''CA'',
      ServiceAccountToken = '''', GitLabAPI = Some example_client\<rparr>"

definition empty_world :: world where
  "empty_world =
     \<lparr>serviceaccounts = Map.empty, secrets = Map.empty, clusterrolebindings = Map.empty,
      faults = (\<lambda>r. None),
      gitlab_GetGroup = (\<lambda>c i. None), gitlab_GetProject = (\<lambda>c i. None),
      gitlab_GroupAddCluster =
        (\<lambda>c i opt. Inr \<lparr>gc_ID = 42, gc_Group = Some \<lparr>group_WebURL = ''https://gitlab.example/grp''\<rparr>\<rparr>),
      gitlab_ProjectAddCluster =
        (\<lambda>c i opt. Inr \<lparr>pc_ID = 42, pc_Project = Some \<lparr>project_WebURL = ''https://gitlab.example/proj''\<rparr>\<rparr>),
      requests = [], refused = [], stdout = ''''\<rparr>"

definition secret_ref :: "string \<Rightarrow> ObjectReference" where
  "secret_ref name = \<lparr>ref_Kind = '''', ref_Namespace = '''', ref_Name = name\<rparr>"

definition admin_account :: "string list \<Rightarrow> ServiceAccount" where
  "admin_account names =
     \<lparr>sa_ObjectMeta = \<lparr>meta_Name = ''gitlab-admin'', meta_Namespace = ''kube-system'', meta_Labels = []\<rparr>,
      sa_Secrets = map secret_ref names, sa_ImagePullSecrets = [],
      sa_AutomountServiceAccountToken = None\<rparr>"

definition token_secret :: "string \<Rightarrow> string \<Rightarrow> Secret" where
  "token_secret name token =
     \<lparr>secret_ObjectMeta = \<lparr>meta_Name = name, meta_Namespace = ''kube-system'', meta_Labels = []\<rparr>,
      secret_Data = [''token'' \<mapsto> token],
      secret_Type = ''kubernetes.io/service-account-token''\<rparr>"

text \<open>
  A cluster holding the \<open>gitlab-admin\<close> ServiceAccount with the given secret references,
  and the given Secrets (name and token).
\<close>

definition cluster_with :: "string list \<Rightarrow> (string \<times> string) list \<Rightarrow> world" where
  "cluster_with names toks =
     empty_world
       \<lparr>serviceaccounts := [(''kube-system'', ''gitlab-admin'') \<mapsto> admin_account names],
        secrets := map_of (map (\<lambda>(n, t). ((''kube-system'', n), token_secret n t)) toks)\<rparr>"

text \<open>The same world in which the request \<open>r\<close> fails with the error \<open>e\<close>.\<close>

definition failing :: "request \<Rightarrow> error \<Rightarrow> world \<Rightarrow> world" where
  "failing r e w = w\<lparr>faults := (faults w)(r := Some e)\<rparr>"

text \<open>
  A machine with an empty environment, a home directory and a kubeconfig whose current
  context is \<open>dev\<close>.
\<close>

definition example_host :: host where
  "example_host =
     \<lparr>Getenv = (\<lambda>v. ''''),
      UserHomeDir = Inr ''/home/dev'',
      filepath_Join = (\<lambda>parts. foldr (\<lambda>a b. if b = '''' then a else a @ ''/'' @ b) parts ''''),
      BuildConfigFromFlags = (\<lambda>path. Inr example_config),
      LoadFromFile =
        (\<lambda>path. Inr \<lparr>api_Contexts = [(''dev'', \<lparr>ctx_Cluster = ''dev-cluster''\<rparr>)], api_CurrentContext = ''dev''\<rparr>),
      NewForConfig = (\<lambda>config. Inr (Clientset config))\<rparr>"

declare decimal.simps [simp del]

section \<open>Properties\<close>

lemmas example_defs =
  example_opts_def example_config_def example_client_def empty_world_def cluster_with_def
  admin_account_def secret_ref_def token_secret_def

lemmas kube_api_defs =
  ServiceAccounts_Get_def ServiceAccounts_lookup_def ServiceAccounts_Create_def
  ClusterRoleBindings_Get_def ClusterRoleBindings_lookup_def ClusterRoleBindings_Create_def
  Secrets_Get_def Secrets_lookup_def sent_def refuse_def name_may_not_be_empty_def
  Println_def Printf_def

subsection \<open>Requests leave the answers of the cluster alone\<close>

lemma ServiceAccounts_lookup_sent [simp]:
  "ServiceAccounts_lookup ns n (sent r w) = ServiceAccounts_lookup ns n w"
  by (simp add: ServiceAccounts_lookup_def sent_def split: option.splits)

lemma Secrets_lookup_sent [simp]:
  "Secrets_lookup ns n (sent r w) = Secrets_lookup ns n w"
  by (simp add: Secrets_lookup_def sent_def split: option.splits)

lemma requests_sent [simp]: "requests (sent r w) = requests w @ [r]"
  by (simp add: sent_def)

lemma requests_refuse [simp]: "requests (refuse r w) = requests w"
  by (simp add: refuse_def)

lemma refused_refuse [simp]: "refused (refuse r w) = refused w @ [r]"
  by (simp add: refuse_def)

lemma refused_sent [simp]: "refused (sent r w) = refused w"
  by (simp add: sent_def)

lemma calls_to_sent [simp]:
  "calls_to t (sent r w) = calls_to t w @ (if target_of r = Some t then [r] else [])"
  by (simp add: calls_to_def sent_def)

lemma calls_to_refuse [simp]: "calls_to t (refuse r w) = calls_to t w"
  by (simp add: calls_to_def refuse_def)

lemma calls_to_Println [simp]: "calls_to t (Println s w) = calls_to t w"
  by (simp add: calls_to_def Println_def)

lemma calls_to_Printf [simp]: "calls_to t (Printf s w) = calls_to t w"
  by (simp add: calls_to_def Printf_def)

lemma calls_to_serviceaccounts_update [simp]:
  "calls_to t (w\<lparr>serviceaccounts := m\<rparr>) = calls_to t w"
  by (simp add: calls_to_def)

lemma calls_to_clusterrolebindings_update [simp]:
  "calls_to t (w\<lparr>clusterrolebindings := m\<rparr>) = calls_to t w"
  by (simp add: calls_to_def)

subsection \<open>The loop over the secret references\<close>

lemma scan_Secrets_no_match:
  "\<forall>r\<in>set refs. MatchString_gitlab_admin_token (ref_Name r) = Inr False \<Longrightarrow> scan_Secrets refs = Inr ''''"
  by (induction refs) auto

lemma scan_Secrets_first_match:
  "\<forall>r\<in>set xs. MatchString_gitlab_admin_token (ref_Name r) = Inr False \<Longrightarrow>
   MatchString_gitlab_admin_token (ref_Name m) = Inr True \<Longrightarrow>
   scan_Secrets (xs @ m # ys) = Inr (ref_Name m)"
  by (induction xs) auto

lemma matching_name_not_empty:
  "MatchString_gitlab_admin_token n = Inr True \<Longrightarrow> n \<noteq> ''''"
  by (auto simp: MatchString_gitlab_admin_token_def)

subsection \<open>The token extractor after the loop\<close>

lemma SaveServiceAccountToken_no_name:
  assumes "KubeClientSet opts = Some cs"
    and "ServiceAccounts_lookup ''kube-system'' ''gitlab-admin'' w = Inr sa"
    and "scan_Secrets (sa_Secrets sa) = Inr ''''"
  shows "SaveServiceAccountToken opts w =
           (Some (Wrapped (ApiError ''resource name may not be empty'') ''unable to get serviceaccount token''),
            opts,
            refuse (GetSecret ''kube-system'' '''') (sent (GetServiceAccount ''kube-system'' ''gitlab-admin'') w))"
  using assms
  by (simp add: SaveServiceAccountToken_def ServiceAccounts_Get_def Secrets_Get_def Wrap_def
      name_may_not_be_empty_def)

lemma SaveServiceAccountToken_fetch_fails:
  assumes "KubeClientSet opts = Some cs"
    and "ServiceAccounts_lookup ''kube-system'' ''gitlab-admin'' w = Inr sa"
    and "scan_Secrets (sa_Secrets sa) = Inr tokenName"
    and "tokenName \<noteq> ''''"
    and "Secrets_lookup ''kube-system'' tokenName w = Inl e"
  shows "SaveServiceAccountToken opts w =
           (Some (Wrapped e ''unable to get serviceaccount token''), opts,
            sent (GetSecret ''kube-system'' tokenName) (sent (GetServiceAccount ''kube-system'' ''gitlab-admin'') w))"
  using assms
  by (simp add: SaveServiceAccountToken_def ServiceAccounts_Get_def Secrets_Get_def Wrap_def)

lemma SaveServiceAccountToken_requests:
  assumes "KubeClientSet opts = Some cs"
    and "ServiceAccounts_lookup ''kube-system'' ''gitlab-admin'' w = Inr sa"
    and "scan_Secrets (sa_Secrets sa) = Inr tokenName"
    and "tokenName \<noteq> ''''"
  shows "requests (snd (snd (SaveServiceAccountToken opts w))) =
           requests w @ [GetServiceAccount ''kube-system'' ''gitlab-admin'', GetSecret ''kube-system'' tokenName]"
  using assms
  by (simp add: SaveServiceAccountToken_def ServiceAccounts_Get_def Secrets_Get_def Wrap_def Let_def
      split: sum.splits)

lemma SaveServiceAccountToken_fetched:
  assumes "KubeClientSet opts = Some cs"
    and "ServiceAccounts_lookup ''kube-system'' ''gitlab-admin'' w = Inr sa"
    and "scan_Secrets (sa_Secrets sa) = Inr tokenName"
    and "tokenName \<noteq> ''''"
    and "Secrets_lookup ''kube-system'' tokenName w = Inr secret"
  shows "fst (SaveServiceAccountToken opts w) = None"
    and "fst (snd (SaveServiceAccountToken opts w)) =
           (case secret_Data secret ''token'' of
              None \<Rightarrow> opts
            | Some b \<Rightarrow> if b = '''' then opts else opts\<lparr>ServiceAccountToken := b\<rparr>)"
  using assms
  by (simp_all add: SaveServiceAccountToken_def ServiceAccounts_Get_def Secrets_Get_def Wrap_def Let_def
      split: option.splits)

subsection \<open>The group flag is set once\<close>

lemma CreateServiceAccount_calls_to:
  "calls_to t (snd (CreateServiceAccount opts w)) = calls_to t w"
  by (simp add: CreateServiceAccount_def ServiceAccounts_Get_def ServiceAccounts_Create_def
      Let_def Wrap_def split: option.splits sum.splits)

lemma CreateClusterRoleBinding_calls_to:
  "calls_to t (snd (CreateClusterRoleBinding opts w)) = calls_to t w"
  by (simp add: CreateClusterRoleBinding_def ClusterRoleBindings_Get_def ClusterRoleBindings_Create_def
      Let_def Wrap_def split: option.splits sum.splits)

lemma SaveServiceAccountToken_calls_to:
  "calls_to t (snd (snd (SaveServiceAccountToken opts w))) = calls_to t w"
  by (simp add: SaveServiceAccountToken_def ServiceAccounts_Get_def Secrets_Get_def
      Let_def Wrap_def split: option.splits sum.splits)

lemma SaveServiceAccountToken_GroupCluster:
  "GitLabGroupCluster (fst (snd (SaveServiceAccountToken opts w))) = GitLabGroupCluster opts"
  by (simp add: SaveServiceAccountToken_def ServiceAccounts_Get_def Secrets_Get_def
      Let_def Wrap_def split: option.splits sum.splits)

lemma Complete_GroupCluster:
  "GitLabGroupCluster (snd (Complete h opts args)) = GitLabGroupCluster opts"
  by (simp add: Complete_def Let_def Wrap_def split: option.splits sum.splits)

lemma Validate_GroupCluster:
  "GitLabGroupCluster (fst (snd (Validate opts w))) = GitLabGroupCluster opts"
  by (simp add: Validate_def Groups_GetGroup_def Projects_GetProject_def Let_def Wrap_def
      split: option.splits)

lemma Validate_calls_to:
  "t \<noteq> (if GitLabGroupCluster opts then Group else Project) \<Longrightarrow>
   calls_to t (snd (snd (Validate opts w))) = calls_to t w"
  by (cases t; cases "GitLabGroupCluster opts")
     (auto simp: Validate_def Groups_GetGroup_def Projects_GetProject_def Let_def Wrap_def
      split: option.splits)

lemma addClusterToGroup_calls_to:
  "calls_to Project (snd (addClusterToGroup opts w)) = calls_to Project w"
  by (simp add: addClusterToGroup_def GroupCluster_AddCluster_def Let_def Wrap_def
      split: option.splits sum.splits)

lemma addClusterToProject_calls_to:
  "calls_to Group (snd (addClusterToProject opts w)) = calls_to Group w"
  by (simp add: addClusterToProject_def ProjectCluster_AddCluster_def Let_def Wrap_def
      split: option.splits sum.splits)

lemma AddClusterToGitLab_snd:
  "snd (AddClusterToGitLab opts w) =
     (if GitLabGroupCluster opts then snd (addClusterToGroup opts w) else snd (addClusterToProject opts w))"
  by (simp add: AddClusterToGitLab_def split: prod.splits option.splits)

lemma AddClusterToGitLab_calls_to:
  "t \<noteq> (if GitLabGroupCluster opts then Group else Project) \<Longrightarrow>
   calls_to t (snd (AddClusterToGitLab opts w)) = calls_to t w"
  by (cases t) (simp_all add: AddClusterToGitLab_snd addClusterToGroup_calls_to
      addClusterToProject_calls_to split: if_splits)

lemma Run_calls_to:
  assumes "t \<noteq> (if GitLabGroupCluster opts then Group else Project)"
  shows "calls_to t (snd (snd (Run opts w))) = calls_to t w"
proof -
  obtain r1 w1 where s1: "CreateServiceAccount opts w = (r1, w1)"
    by (cases "CreateServiceAccount opts w")
  obtain r2 w2 where s2: "CreateClusterRoleBinding opts w1 = (r2, w2)"
    by (cases "CreateClusterRoleBinding opts w1")
  obtain r3 o3 w3 where s3: "SaveServiceAccountToken opts w2 = (r3, o3, w3)"
    by (cases "SaveServiceAccountToken opts w2")
  obtain r4 w4 where s4: "AddClusterToGitLab o3 w3 = (r4, w4)"
    by (cases "AddClusterToGitLab o3 w3")
  have c1: "calls_to t w1 = calls_to t w"
    using CreateServiceAccount_calls_to [of t opts w] by (simp add: s1)
  have c2: "calls_to t w2 = calls_to t w1"
    using CreateClusterRoleBinding_calls_to [of t opts w1] by (simp add: s2)
  have c3: "calls_to t w3 = calls_to t w2"
    using SaveServiceAccountToken_calls_to [of t opts w2] by (simp add: s3)
  have g3: "GitLabGroupCluster o3 = GitLabGroupCluster opts"
    using SaveServiceAccountToken_GroupCluster [of opts w2] by (simp add: s3)
  have c4: "calls_to t w4 = calls_to t w3"
    using AddClusterToGitLab_calls_to [of t o3 w3] assms by (simp add: s4 g3)
  show ?thesis
    by (simp add: Run_def s1 s2 s3 s4 c1 c2 c3 c4 split: option.splits)
qed

lemma RunE_calls_to:
  assumes "t \<noteq> (if GitLabGroupCluster opts then Group else Project)"
  shows "calls_to t (snd (snd (RunE h opts args w))) = calls_to t w"
proof -
  obtain r1 o1 where s1: "Complete h opts args = (r1, o1)"
    by (cases "Complete h opts args")
  obtain r2 o2 w2 where s2: "Validate o1 w = (r2, o2, w2)"
    by (cases "Validate o1 w")
  obtain r3 o3 w3 where s3: "Run o2 w2 = (r3, o3, w3)"
    by (cases "Run o2 w2")
  have g1: "GitLabGroupCluster o1 = GitLabGroupCluster opts"
    using Complete_GroupCluster [of h opts args] by (simp add: s1)
  have g2: "GitLabGroupCluster o2 = GitLabGroupCluster opts"
    using Validate_GroupCluster [of o1 w] by (simp add: s2 g1)
  have c2: "calls_to t w2 = calls_to t w"
    using Validate_calls_to [of t o1 w] assms by (simp add: s2 g1)
  have c3: "calls_to t w3 = calls_to t w2"
    using Run_calls_to [of t o2 w2] assms by (simp add: s3 g2)
  show ?thesis
    by (simp add: RunE_def s1 s2 s3 c2 c3 split: option.splits)
qed

subsection \<open>The token resolved by Complete\<close>

lemma Complete_token:
  "length args = 1 \<Longrightarrow>
   GitLabAPIToken (snd (Complete h opts args)) =
     (if GitLabAPIToken opts = '''' then Getenv h ''GITLAB_API_TOKEN'' else GitLabAPIToken opts)"
  by (simp add: Complete_def Let_def Wrap_def split: option.splits sum.splits)

section \<open>The claims\<close>

text \<open>
  C1. A fetched Secret whose \<open>token\<close> field is empty should make
  \<open>SaveServiceAccountToken\<close> fail, so that the registration call never carries an empty
  token. The code wraps the nil error of the successful GET, and wrapping nil gives nil:
  on a cluster whose matching Secret holds an empty token the function returns no error
  and leaves \<open>ServiceAccountToken\<close> empty, and \<open>Run\<close> goes on to register the cluster
  with an empty token.
\<close>

theorem empty_token_is_not_rejected:
  "fst (SaveServiceAccountToken example_opts
          (cluster_with [''foo'', ''gitlab-admin-token-abc123''] [(''gitlab-admin-token-abc123'', '''')])) = None
   \<and> ServiceAccountToken (fst (snd (SaveServiceAccountToken example_opts
          (cluster_with [''foo'', ''gitlab-admin-token-abc123''] [(''gitlab-admin-token-abc123'', '''')])))) = ''''
   \<and> fst (Run example_opts
          (cluster_with [''foo'', ''gitlab-admin-token-abc123''] [(''gitlab-admin-token-abc123'', '''')])) = None
   \<and> last (requests (snd (snd (Run example_opts
          (cluster_with [''foo'', ''gitlab-admin-token-abc123''] [(''gitlab-admin-token-abc123'', '''')])))))
       = ProjectAddCluster example_client ''7''
           \<lparr>co_Name = ''dev-cluster'', co_EnvironmentScope = ''*'',
            co_PlatformKubernetes =
              \<lparr>pk_APIURL = ''https://k8s.example:6443'', pk_Token = '''', pk_CaCert = ''CA''\<rparr>\<rparr>"
  by (simp add: Run_def CreateServiceAccount_def CreateClusterRoleBinding_def SaveServiceAccountToken_def
      AddClusterToGitLab_def addClusterToProject_def ProjectCluster_AddCluster_def clusterOpts_def
      kube_api_defs example_defs MatchString_gitlab_admin_token_def Wrap_def ObjectMeta_zero_def)

text \<open>
  C2, as stated, fails: when no secret reference begins with \<open>gitlab-admin-token-\<close> the
  code has no error of its own. It calls the Secret GET with the empty name, which the
  client turns down, and returns that GET's error wrapped with "unable to get
  serviceaccount token", as it does when the GET of a matching Secret fails (here
  because the connection is refused).
\<close>

theorem no_match_error_is_the_error_of_the_secret_get:
  "fst (SaveServiceAccountToken example_opts (cluster_with [''foo''] []))
     = Some (Wrapped (ApiError ''resource name may not be empty'') ''unable to get serviceaccount token'')
   \<and> fst (Secrets_Get ''kube-system'' '''' (cluster_with [''foo''] []))
     = Inl (ApiError ''resource name may not be empty'')
   \<and> fst (SaveServiceAccountToken example_opts
        (failing (GetSecret ''kube-system'' ''gitlab-admin-token-abc123'') (ApiError ''connection refused'')
           (cluster_with [''gitlab-admin-token-abc123''] [])))
     = Some (Wrapped (ApiError ''connection refused'') ''unable to get serviceaccount token'')"
  by (simp add: SaveServiceAccountToken_def kube_api_defs example_defs failing_def
      MatchString_gitlab_admin_token_def Wrap_def)

text \<open>
  C2, amended. For every ServiceAccount none of whose secret references begins with
  \<open>gitlab-admin-token-\<close>, the loop leaves the token name empty and token extraction
  fails: the error is that of the Secret GET called with the empty name ("resource name
  may not be empty"), wrapped with "unable to get serviceaccount token", and no token is
  saved. For the list \<open>["foo", "gitlab-admin-token-abc123"]\<close> the loop selects
  \<open>gitlab-admin-token-abc123\<close>.
\<close>

theorem no_match_fails_with_the_error_of_the_secret_get:
  assumes "KubeClientSet opts = Some cs"
    and "ServiceAccounts_lookup ''kube-system'' ''gitlab-admin'' w = Inr sa"
    and "\<forall>r\<in>set (sa_Secrets sa). MatchString_gitlab_admin_token (ref_Name r) = Inr False"
  shows "scan_Secrets (sa_Secrets sa) = Inr ''''
         \<and> fst (SaveServiceAccountToken opts w)
             = Some (Wrapped (ApiError ''resource name may not be empty'') ''unable to get serviceaccount token'')
         \<and> fst (snd (SaveServiceAccountToken opts w)) = opts
         \<and> scan_Secrets [secret_ref ''foo'', secret_ref ''gitlab-admin-token-abc123'']
             = Inr ''gitlab-admin-token-abc123''"
proof -
  have name: "scan_Secrets (sa_Secrets sa) = Inr ''''"
    by (rule scan_Secrets_no_match [OF assms(3)])
  have sel: "scan_Secrets [secret_ref ''foo'', secret_ref ''gitlab-admin-token-abc123'']
             = Inr ''gitlab-admin-token-abc123''"
    by (simp add: secret_ref_def MatchString_gitlab_admin_token_def)
  show ?thesis
    using name sel SaveServiceAccountToken_no_name [OF assms(1,2) name]
    by simp
qed

theorem no_match_fails_with_the_error_of_the_secret_get_witness:
  "KubeClientSet example_opts = Some (Clientset example_config)
   \<and> ServiceAccounts_lookup ''kube-system'' ''gitlab-admin'' (cluster_with [''default-token-x7''] [])
       = Inr (admin_account [''default-token-x7''])
   \<and> sa_Secrets (admin_account [''default-token-x7'']) = [secret_ref ''default-token-x7'']
   \<and> MatchString_gitlab_admin_token (ref_Name (secret_ref ''default-token-x7'')) = Inr False
   \<and> fst (SaveServiceAccountToken example_opts (cluster_with [''default-token-x7''] []))
       = Some (Wrapped (ApiError ''resource name may not be empty'') ''unable to get serviceaccount token'')
   \<and> fst (snd (SaveServiceAccountToken example_opts (cluster_with [''default-token-x7''] []))) = example_opts"
proof -
  have h1: "KubeClientSet example_opts = Some (Clientset example_config)"
    by (simp add: example_opts_def)
  have h2: "ServiceAccounts_lookup ''kube-system'' ''gitlab-admin'' (cluster_with [''default-token-x7''] [])
       = Inr (admin_account [''default-token-x7''])"
    by (simp add: ServiceAccounts_lookup_def cluster_with_def empty_world_def)
  have refs: "sa_Secrets (admin_account [''default-token-x7'']) = [secret_ref ''default-token-x7'']"
    by (simp add: admin_account_def)
  have miss: "MatchString_gitlab_admin_token (ref_Name (secret_ref ''default-token-x7'')) = Inr False"
    by (simp add: secret_ref_def MatchString_gitlab_admin_token_def)
  have h3: "\<forall>r\<in>set (sa_Secrets (admin_account [''default-token-x7''])).
         MatchString_gitlab_admin_token (ref_Name r) = Inr False"
    by (simp add: refs miss)
  show ?thesis
    using h1 h2 refs miss no_match_fails_with_the_error_of_the_secret_get [OF h1 h2 h3] by blast
qed

text \<open>
  C3. Whenever the GET of the \<open>gitlab-admin\<close> ServiceAccount in \<open>kube-system\<close> succeeds,
  \<open>CreateServiceAccount\<close> returns no error, issues that GET and no CREATE, and changes
  nothing but the log of requests and the output; running it a second time again
  succeeds with one more GET and leaves the stored ServiceAccounts as they were.
\<close>

theorem CreateServiceAccount_reuses_existing:
  assumes "KubeClientSet opts = Some cs"
    and "ServiceAccounts_lookup ''kube-system'' ''gitlab-admin'' w = Inr sa"
  shows "CreateServiceAccount opts w =
           (None, w\<lparr>requests := requests w @ [GetServiceAccount ''kube-system'' ''gitlab-admin''],
                    stdout := stdout w @ ''Using existing gitlab-admin account'' @ [CHR 0x0A]\<rparr>)
         \<and> fst (CreateServiceAccount opts (snd (CreateServiceAccount opts w))) = None
         \<and> serviceaccounts (snd (CreateServiceAccount opts (snd (CreateServiceAccount opts w))))
             = serviceaccounts w
         \<and> requests (snd (CreateServiceAccount opts (snd (CreateServiceAccount opts w))))
             = requests w @ [GetServiceAccount ''kube-system'' ''gitlab-admin'',
                             GetServiceAccount ''kube-system'' ''gitlab-admin'']"
proof -
  define w1 where "w1 = w\<lparr>requests := requests w @ [GetServiceAccount ''kube-system'' ''gitlab-admin''],
                    stdout := stdout w @ ''Using existing gitlab-admin account'' @ [CHR 0x0A]\<rparr>"
  have reuse: "CreateServiceAccount opts v =
        (None, v\<lparr>requests := requests v @ [GetServiceAccount ''kube-system'' ''gitlab-admin''],
                 stdout := stdout v @ ''Using existing gitlab-admin account'' @ [CHR 0x0A]\<rparr>)"
    if "ServiceAccounts_lookup ''kube-system'' ''gitlab-admin'' v = Inr sa" for v
    using assms(1) that
    by (simp add: CreateServiceAccount_def ServiceAccounts_Get_def sent_def Println_def)
  have found: "ServiceAccounts_lookup ''kube-system'' ''gitlab-admin'' w1 = Inr sa"
    using assms(2) by (simp add: w1_def ServiceAccounts_lookup_def split: option.splits)
  have first: "CreateServiceAccount opts w = (None, w1)"
    unfolding w1_def by (rule reuse [OF assms(2)])
  have second: "CreateServiceAccount opts w1 =
        (None, w1\<lparr>requests := requests w1 @ [GetServiceAccount ''kube-system'' ''gitlab-admin''],
                 stdout := stdout w1 @ ''Using existing gitlab-admin account'' @ [CHR 0x0A]\<rparr>)"
    by (rule reuse [OF found])
  have "CreateServiceAccount opts w = (None, w1)"
    by (rule first)
  moreover have "fst (CreateServiceAccount opts (snd (CreateServiceAccount opts w))) = None"
    by (simp add: first second)
  moreover have "serviceaccounts (snd (CreateServiceAccount opts (snd (CreateServiceAccount opts w))))
             = serviceaccounts w"
    by (simp add: first second) (simp add: w1_def)
  moreover have "requests (snd (CreateServiceAccount opts (snd (CreateServiceAccount opts w))))
             = requests w @ [GetServiceAccount ''kube-system'' ''gitlab-admin'',
                             GetServiceAccount ''kube-system'' ''gitlab-admin'']"
    by (simp add: first second) (simp add: w1_def)
  ultimately show ?thesis
    unfolding w1_def by blast
qed

theorem CreateServiceAccount_reuses_existing_witness:
  "KubeClientSet example_opts = Some (Clientset example_config)
   \<and> ServiceAccounts_lookup ''kube-system'' ''gitlab-admin'' (cluster_with [''gitlab-admin-token-abc123''] [])
       = Inr (admin_account [''gitlab-admin-token-abc123''])
   \<and> requests (cluster_with [''gitlab-admin-token-abc123''] []) = []
   \<and> fst (CreateServiceAccount example_opts
         (snd (CreateServiceAccount example_opts (cluster_with [''gitlab-admin-token-abc123''] [])))) = None
   \<and> serviceaccounts (snd (CreateServiceAccount example_opts
         (snd (CreateServiceAccount example_opts (cluster_with [''gitlab-admin-token-abc123''] [])))))
       = serviceaccounts (cluster_with [''gitlab-admin-token-abc123''] [])
   \<and> requests (snd (CreateServiceAccount example_opts
         (snd (CreateServiceAccount example_opts (cluster_with [''gitlab-admin-token-abc123''] [])))))
       = requests (cluster_with [''gitlab-admin-token-abc123''] [])
           @ [GetServiceAccount ''kube-system'' ''gitlab-admin'', GetServiceAccount ''kube-system'' ''gitlab-admin'']"
proof -
  have h1: "KubeClientSet example_opts = Some (Clientset example_config)"
    by (simp add: example_opts_def)
  have h2: "ServiceAccounts_lookup ''kube-system'' ''gitlab-admin'' (cluster_with [''gitlab-admin-token-abc123''] [])
       = Inr (admin_account [''gitlab-admin-token-abc123''])"
    by (simp add: ServiceAccounts_lookup_def cluster_with_def empty_world_def)
  have rq: "requests (cluster_with [''gitlab-admin-token-abc123''] []) = []"
    by (simp add: cluster_with_def empty_world_def)
  show ?thesis
    using h1 h2 rq CreateServiceAccount_reuses_existing [OF h1 h2] by blast
qed

text \<open>
  C4. Whenever the GET of the \<open>gitlab-admin\<close> ServiceAccount fails, \<open>CreateServiceAccount\<close>
  issues, after that GET, exactly one CREATE in \<open>kube-system\<close>, of a ServiceAccount
  whose name is \<open>gitlab-admin\<close> and whose other fields are all at their zero value.
\<close>

theorem CreateServiceAccount_creates_once:
  assumes "KubeClientSet opts = Some cs"
    and "ServiceAccounts_lookup ''kube-system'' ''gitlab-admin'' w = Inl e"
  shows "requests (snd (CreateServiceAccount opts w)) =
           requests w @
             [GetServiceAccount ''kube-system'' ''gitlab-admin'',
              PostServiceAccount ''kube-system''
                \<lparr>sa_ObjectMeta = \<lparr>meta_Name = ''gitlab-admin'', meta_Namespace = '''', meta_Labels = []\<rparr>,
                 sa_Secrets = [], sa_ImagePullSecrets = [], sa_AutomountServiceAccountToken = None\<rparr>]"
  using assms
  by (simp add: CreateServiceAccount_def ServiceAccounts_Get_def ServiceAccounts_Create_def
      ServiceAccount_zero_def ObjectMeta_zero_def sent_def Let_def split: option.splits)

theorem CreateServiceAccount_creates_once_witness:
  "KubeClientSet example_opts = Some (Clientset example_config)
   \<and> ServiceAccounts_lookup ''kube-system'' ''gitlab-admin'' empty_world = Inl (ApiError ''not found'')
   \<and> requests (snd (CreateServiceAccount example_opts empty_world)) =
       [GetServiceAccount ''kube-system'' ''gitlab-admin'',
        PostServiceAccount ''kube-system''
          \<lparr>sa_ObjectMeta = \<lparr>meta_Name = ''gitlab-admin'', meta_Namespace = '''', meta_Labels = []\<rparr>,
           sa_Secrets = [], sa_ImagePullSecrets = [], sa_AutomountServiceAccountToken = None\<rparr>]"
proof -
  have h1: "KubeClientSet example_opts = Some (Clientset example_config)"
    by (simp add: example_opts_def)
  have h2: "ServiceAccounts_lookup ''kube-system'' ''gitlab-admin'' empty_world = Inl (ApiError ''not found'')"
    by (simp add: ServiceAccounts_lookup_def empty_world_def)
  have rq: "requests empty_world = []"
    by (simp add: empty_world_def)
  show ?thesis
    using h1 h2 rq CreateServiceAccount_creates_once [OF h1 h2] by simp
qed

text \<open>
  C5. With a token and an id, \<open>Validate\<close> makes exactly one GitLab call: the group
  lookup when \<open>GitLabGroupCluster\<close> is set, the project lookup otherwise. With a client,
  \<open>AddClusterToGitLab\<close> makes exactly one call: the group cluster-add when the flag is
  set, the project cluster-add otherwise. Over the whole command, no call goes to the
  other target: with the flag set no project endpoint is called, without it no group
  endpoint.
\<close>

theorem group_flag_selects_the_target:
  assumes "GitLabAPIToken opts \<noteq> ''''" and "GitLabProjectID opts \<noteq> ''''"
    and "GitLabAPI opts = Some c"
  shows "requests (snd (snd (Validate opts w))) =
           requests w @
             [if GitLabGroupCluster opts
              then GetGroup \<lparr>cl_token = GitLabAPIToken opts, cl_baseURL = GitLabURL opts\<rparr> (GitLabProjectID opts)
              else GetProject \<lparr>cl_token = GitLabAPIToken opts, cl_baseURL = GitLabURL opts\<rparr> (GitLabProjectID opts)]
         \<and> requests (snd (AddClusterToGitLab opts w)) =
           requests w @
             [if GitLabGroupCluster opts
              then GroupAddCluster c (GitLabProjectID opts) (clusterOpts opts)
              else ProjectAddCluster c (GitLabProjectID opts) (clusterOpts opts)]
         \<and> calls_to (if GitLabGroupCluster opts then Project else Group) (snd (snd (RunE h opts args w)))
           = calls_to (if GitLabGroupCluster opts then Project else Group) w"
proof -
  have validate: "requests (snd (snd (Validate opts w))) =
           requests w @
             [if GitLabGroupCluster opts
              then GetGroup \<lparr>cl_token = GitLabAPIToken opts, cl_baseURL = GitLabURL opts\<rparr> (GitLabProjectID opts)
              else GetProject \<lparr>cl_token = GitLabAPIToken opts, cl_baseURL = GitLabURL opts\<rparr> (GitLabProjectID opts)]"
    using assms(1,2)
    by (simp add: Validate_def Groups_GetGroup_def Projects_GetProject_def Let_def Wrap_def sent_def
        split: option.splits)
  have register: "requests (snd (AddClusterToGitLab opts w)) =
           requests w @
             [if GitLabGroupCluster opts
              then GroupAddCluster c (GitLabProjectID opts) (clusterOpts opts)
              else ProjectAddCluster c (GitLabProjectID opts) (clusterOpts opts)]"
    using assms(3)
    by (simp add: AddClusterToGitLab_def addClusterToGroup_def addClusterToProject_def
        GroupCluster_AddCluster_def ProjectCluster_AddCluster_def Let_def Wrap_def sent_def
        Println_def Printf_def split: option.splits sum.splits)
  have whole: "calls_to (if GitLabGroupCluster opts then Project else Group) (snd (snd (RunE h opts args w)))
           = calls_to (if GitLabGroupCluster opts then Project else Group) w"
    by (rule RunE_calls_to) simp
  show ?thesis
    using validate register whole by blast
qed

theorem group_flag_selects_the_target_witness:
  "GitLabAPIToken (example_opts\<lparr>GitLabGroupCluster := True\<rparr>) \<noteq> ''''
   \<and> GitLabProjectID (example_opts\<lparr>GitLabGroupCluster := True\<rparr>) \<noteq> ''''
   \<and> GitLabAPI (example_opts\<lparr>GitLabGroupCluster := True\<rparr>) = Some example_client
   \<and> requests (snd (snd (Validate (example_opts\<lparr>GitLabGroupCluster := True\<rparr>) empty_world)))
       = [GetGroup example_client ''7'']
   \<and> requests (snd (AddClusterToGitLab (example_opts\<lparr>GitLabGroupCluster := True\<rparr>) empty_world))
       = [GroupAddCluster example_client ''7'' (clusterOpts (example_opts\<lparr>GitLabGroupCluster := True\<rparr>))]
   \<and> calls_to Project
        (snd (snd (RunE example_host (example_opts\<lparr>GitLabGroupCluster := True\<rparr>) [''7''] empty_world))) = []"
proof -
  have h1: "GitLabAPIToken (example_opts\<lparr>GitLabGroupCluster := True\<rparr>) \<noteq> ''''"
    by (simp add: example_opts_def)
  have h2: "GitLabProjectID (example_opts\<lparr>GitLabGroupCluster := True\<rparr>) \<noteq> ''''"
    by (simp add: example_opts_def)
  have h3: "GitLabAPI (example_opts\<lparr>GitLabGroupCluster := True\<rparr>) = Some example_client"
    by (simp add: example_opts_def)
  have flag: "GitLabGroupCluster (example_opts\<lparr>GitLabGroupCluster := True\<rparr>)"
    by simp
  have client: "\<lparr>cl_token = GitLabAPIToken (example_opts\<lparr>GitLabGroupCluster := True\<rparr>),
                 cl_baseURL = GitLabURL (example_opts\<lparr>GitLabGroupCluster := True\<rparr>)\<rparr> = example_client"
    by (simp add: example_opts_def example_client_def)
  have ident: "GitLabProjectID (example_opts\<lparr>GitLabGroupCluster := True\<rparr>) = ''7''"
    by (simp add: example_opts_def)
  have rq: "requests empty_world = []"
    by (simp add: empty_world_def)
  have none: "calls_to Project empty_world = []"
    by (simp add: calls_to_def empty_world_def)
  note main = group_flag_selects_the_target [OF h1 h2 h3, of empty_world example_host "[''7'']"]
  have v: "requests (snd (snd (Validate (example_opts\<lparr>GitLabGroupCluster := True\<rparr>) empty_world)))
       = [GetGroup example_client ''7'']"
    using main by (simp only: flag client ident rq if_True append_Nil)
  have a: "requests (snd (AddClusterToGitLab (example_opts\<lparr>GitLabGroupCluster := True\<rparr>) empty_world))
       = [GroupAddCluster example_client ''7'' (clusterOpts (example_opts\<lparr>GitLabGroupCluster := True\<rparr>))]"
    using main by (simp only: flag client ident rq if_True append_Nil)
  have r: "calls_to Project
        (snd (snd (RunE example_host (example_opts\<lparr>GitLabGroupCluster := True\<rparr>) [''7''] empty_world))) = []"
    using main by (simp only: flag none if_True)
  show ?thesis
    using h1 h2 h3 v a r by blast
qed

text \<open>
  C6. On a successful project cluster-add whose response carries its project,
  \<open>addClusterToProject\<close> returns no error and prints the confirmation and then the
  follow-up line, whose URL is the project's \<open>WebURL\<close>, \<open>/clusters/\<close> and the cluster id
  in decimal.
\<close>

theorem addClusterToProject_prints_the_url:
  assumes "GitLabAPI opts = Some c"
    and "gitlab_ProjectAddCluster w c (GitLabProjectID opts) (clusterOpts opts) = Inr pc"
    and "pc_Project pc = Some p"
  shows "addClusterToProject opts w =
           (None, w\<lparr>requests := requests w @ [ProjectAddCluster c (GitLabProjectID opts) (clusterOpts opts)],
                    stdout := stdout w @ ''Cluster successfully added to project!'' @ [CHR 0x0A]
                      @ ''To finish up visit: ''
                      @ (project_WebURL p @ ''/clusters/'' @ format_d (pc_ID pc))
                      @ '' and install Helm and Runner.'' @ [CHR 0x0A]\<rparr>)"
  using assms
  by (simp add: addClusterToProject_def ProjectCluster_AddCluster_def sent_def Println_def Printf_def)

theorem addClusterToProject_prints_the_url_witness:
  "GitLabAPI example_opts = Some example_client
   \<and> gitlab_ProjectAddCluster empty_world example_client (GitLabProjectID example_opts) (clusterOpts example_opts)
       = Inr \<lparr>pc_ID = 42, pc_Project = Some \<lparr>project_WebURL = ''https://gitlab.example/proj''\<rparr>\<rparr>
   \<and> pc_Project \<lparr>pc_ID = 42, pc_Project = Some \<lparr>project_WebURL = ''https://gitlab.example/proj''\<rparr>\<rparr>
       = Some \<lparr>project_WebURL = ''https://gitlab.example/proj''\<rparr>
   \<and> fst (addClusterToProject example_opts empty_world) = None
   \<and> stdout (snd (addClusterToProject example_opts empty_world)) =
       ''Cluster successfully added to project!'' @ [CHR 0x0A]
       @ ''To finish up visit: https://gitlab.example/proj/clusters/42 and install Helm and Runner.''
       @ [CHR 0x0A]"
proof -
  have h1: "GitLabAPI example_opts = Some example_client"
    by (simp add: example_opts_def)
  have h2: "gitlab_ProjectAddCluster empty_world example_client (GitLabProjectID example_opts) (clusterOpts example_opts)
       = Inr \<lparr>pc_ID = 42, pc_Project = Some \<lparr>project_WebURL = ''https://gitlab.example/proj''\<rparr>\<rparr>"
    by (simp add: empty_world_def)
  have h3: "pc_Project \<lparr>pc_ID = 42, pc_Project = Some \<lparr>project_WebURL = ''https://gitlab.example/proj''\<rparr>\<rparr>
       = Some \<lparr>project_WebURL = ''https://gitlab.example/proj''\<rparr>"
    by simp
  have d: "format_d 42 = ''42''"
    by (simp add: format_d_def decimal.simps)
  have out: "stdout empty_world = ''''"
    by (simp add: empty_world_def)
  note main = addClusterToProject_prints_the_url [OF h1 h2 h3]
  have r: "fst (addClusterToProject example_opts empty_world) = None"
    by (simp add: main)
  have s: "stdout (snd (addClusterToProject example_opts empty_world)) =
       ''Cluster successfully added to project!'' @ [CHR 0x0A]
       @ ''To finish up visit: https://gitlab.example/proj/clusters/42 and install Helm and Runner.''
       @ [CHR 0x0A]"
    by (simp add: main d out)
  show ?thesis
    using h1 h2 h3 r s by blast
qed

text \<open>
  C7. Whenever the number of positional arguments is not one, in particular when the id
  is absent, \<open>Complete\<close> returns the error "GitLab project id is required" and leaves
  the options untouched, whatever the machine holds; the command then ends with that
  error and the world, its log of requests included, is as before.
\<close>

theorem Complete_requires_the_id:
  "length args \<noteq> 1 \<Longrightarrow>
     Complete h opts args = (Some (Errorf ''GitLab project id is required''), opts)
     \<and> RunE h opts args w = (Some (Errorf ''GitLab project id is required''), opts, w)"
  by (simp add: Complete_def RunE_def)

theorem Complete_requires_the_id_witness:
  "length ([] :: string list) \<noteq> 1
   \<and> Complete example_host NewGitLabBootstrapOptions []
       = (Some (Errorf ''GitLab project id is required''), NewGitLabBootstrapOptions)
   \<and> RunE example_host NewGitLabBootstrapOptions [] empty_world
       = (Some (Errorf ''GitLab project id is required''), NewGitLabBootstrapOptions, empty_world)"
proof -
  have h: "length ([] :: string list) \<noteq> 1"
    by simp
  show ?thesis
    using h Complete_requires_the_id [OF h, of example_host NewGitLabBootstrapOptions empty_world]
    by blast
qed

text \<open>
  C8. Given the positional id, an invocation with the token flag unset and
  \<open>GITLAB_API_TOKEN\<close> set to \<open>t\<close> resolves \<open>GitLabAPIToken\<close> to \<open>t\<close>. An invocation with
  the flag set to \<open>t\<close> resolves it to \<open>t\<close> as well, whatever the environment holds when
  \<open>t\<close> is not empty (the variable is read only when the flag is empty) and, for the
  empty \<open>t\<close>, when the variable is empty too. \<open>Complete\<close> then returns the same error and
  the same options in both invocations, and so does the whole command, with the same
  world.
\<close>

theorem token_from_the_environment:
  assumes "length args = 1"
  shows "GitLabAPIToken (snd (Complete (h\<lparr>Getenv := (Getenv h)(''GITLAB_API_TOKEN'' := t)\<rparr>)
                                   (opts\<lparr>GitLabAPIToken := ''''\<rparr>) args)) = t
         \<and> (t \<noteq> '''' \<or> g ''GITLAB_API_TOKEN'' = t \<longrightarrow>
              GitLabAPIToken (snd (Complete (h\<lparr>Getenv := g\<rparr>) (opts\<lparr>GitLabAPIToken := t\<rparr>) args)) = t
              \<and> Complete (h\<lparr>Getenv := g\<rparr>) (opts\<lparr>GitLabAPIToken := t\<rparr>) args
                  = Complete (h\<lparr>Getenv := (Getenv h)(''GITLAB_API_TOKEN'' := t)\<rparr>)
                      (opts\<lparr>GitLabAPIToken := ''''\<rparr>) args
              \<and> RunE (h\<lparr>Getenv := g\<rparr>) (opts\<lparr>GitLabAPIToken := t\<rparr>) args w
                  = RunE (h\<lparr>Getenv := (Getenv h)(''GITLAB_API_TOKEN'' := t)\<rparr>)
                      (opts\<lparr>GitLabAPIToken := ''''\<rparr>) args w)"
proof -
  have unset: "GitLabAPIToken (snd (Complete (h\<lparr>Getenv := (Getenv h)(''GITLAB_API_TOKEN'' := t)\<rparr>)
                                   (opts\<lparr>GitLabAPIToken := ''''\<rparr>) args)) = t"
    by (simp add: Complete_token [OF assms])
  have flag: "GitLabAPIToken (snd (Complete (h\<lparr>Getenv := g\<rparr>) (opts\<lparr>GitLabAPIToken := t\<rparr>) args)) = t"
    if "t \<noteq> '''' \<or> g ''GITLAB_API_TOKEN'' = t"
    using that by (auto simp: Complete_token [OF assms])
  have same: "Complete (h\<lparr>Getenv := g\<rparr>) (opts\<lparr>GitLabAPIToken := t\<rparr>) args
                  = Complete (h\<lparr>Getenv := (Getenv h)(''GITLAB_API_TOKEN'' := t)\<rparr>)
                      (opts\<lparr>GitLabAPIToken := ''''\<rparr>) args"
    if "t \<noteq> '''' \<or> g ''GITLAB_API_TOKEN'' = t"
  proof (cases "t = ''''")
    case False
    then show ?thesis
      using assms
      by (cases opts; cases h)
         (simp add: Complete_def Let_def cong: sum.case_cong option.case_cong if_cong)
  next
    case True
    with that have "g ''GITLAB_API_TOKEN'' = ''''"
      by simp
    with True show ?thesis
      using assms
      by (cases opts; cases h)
         (simp add: Complete_def Let_def cong: sum.case_cong option.case_cong if_cong)
  qed
  have run: "RunE (h\<lparr>Getenv := g\<rparr>) (opts\<lparr>GitLabAPIToken := t\<rparr>) args w
                  = RunE (h\<lparr>Getenv := (Getenv h)(''GITLAB_API_TOKEN'' := t)\<rparr>)
                      (opts\<lparr>GitLabAPIToken := ''''\<rparr>) args w"
    if "t \<noteq> '''' \<or> g ''GITLAB_API_TOKEN'' = t"
    by (simp add: RunE_def same [OF that])
  show ?thesis
    using unset flag same run by blast
qed

theorem token_from_the_environment_witness:
  "length [''7''] = 1
   \<and> ''glpat'' \<noteq> ''''
   \<and> GitLabAPIToken (snd (Complete (example_host\<lparr>Getenv := (Getenv example_host)(''GITLAB_API_TOKEN'' := ''glpat'')\<rparr>)
                                   (NewGitLabBootstrapOptions\<lparr>GitLabAPIToken := ''''\<rparr>) [''7''])) = ''glpat''
   \<and> GitLabAPIToken (snd (Complete (example_host\<lparr>Getenv := (\<lambda>v. ''other'')\<rparr>)
                                   (NewGitLabBootstrapOptions\<lparr>GitLabAPIToken := ''glpat''\<rparr>) [''7''])) = ''glpat''
   \<and> RunE (example_host\<lparr>Getenv := (\<lambda>v. ''other'')\<rparr>)
          (NewGitLabBootstrapOptions\<lparr>GitLabAPIToken := ''glpat''\<rparr>) [''7''] empty_world
       = RunE (example_host\<lparr>Getenv := (Getenv example_host)(''GITLAB_API_TOKEN'' := ''glpat'')\<rparr>)
          (NewGitLabBootstrapOptions\<lparr>GitLabAPIToken := ''''\<rparr>) [''7''] empty_world
   \<and> fst (Complete (example_host\<lparr>Getenv := (Getenv example_host)(''GITLAB_API_TOKEN'' := ''glpat'')\<rparr>)
                   (NewGitLabBootstrapOptions\<lparr>GitLabAPIToken := ''''\<rparr>) [''7'']) = None"
proof -
  have h: "length [''7''] = 1"
    by simp
  have ne: "''glpat'' \<noteq> ''''"
    by simp
  have ok: "fst (Complete (example_host\<lparr>Getenv := (Getenv example_host)(''GITLAB_API_TOKEN'' := ''glpat'')\<rparr>)
                   (NewGitLabBootstrapOptions\<lparr>GitLabAPIToken := ''''\<rparr>) [''7'']) = None"
    by (simp add: Complete_def NewGitLabBootstrapOptions_def example_host_def example_config_def Let_def)
  show ?thesis
    using h ne ok
      token_from_the_environment [OF h, of example_host "''glpat''" NewGitLabBootstrapOptions
        "\<lambda>v. ''other''" empty_world]
    by blast
qed

text \<open>
  C9. When the secret references of the ServiceAccount are \<open>xs @ m # ys\<close>, no name in
  \<open>xs\<close> begins with \<open>gitlab-admin-token-\<close> and the name of \<open>m\<close> does, the loop selects
  \<open>m\<close>, the only Secret asked for is the one named by \<open>m\<close>, and the references after
  \<open>m\<close> play no part: cutting the list off after \<open>m\<close> gives the same error, the same
  options and the same requests.
\<close>

theorem first_matching_reference_is_selected:
  assumes "KubeClientSet opts = Some cs"
    and "ServiceAccounts_lookup ''kube-system'' ''gitlab-admin'' w = Inr sa"
    and "sa_Secrets sa = xs @ m # ys"
    and "\<forall>r\<in>set xs. MatchString_gitlab_admin_token (ref_Name r) = Inr False"
    and "MatchString_gitlab_admin_token (ref_Name m) = Inr True"
  shows "scan_Secrets (sa_Secrets sa) = Inr (ref_Name m)
         \<and> requests (snd (snd (SaveServiceAccountToken opts w))) =
             requests w @ [GetServiceAccount ''kube-system'' ''gitlab-admin'',
                           GetSecret ''kube-system'' (ref_Name m)]
         \<and> (let w' = w\<lparr>serviceaccounts :=
                         (serviceaccounts w)((''kube-system'', ''gitlab-admin'') \<mapsto> sa\<lparr>sa_Secrets := xs @ [m]\<rparr>)\<rparr>
            in fst (SaveServiceAccountToken opts w') = fst (SaveServiceAccountToken opts w)
               \<and> fst (snd (SaveServiceAccountToken opts w')) = fst (snd (SaveServiceAccountToken opts w))
               \<and> requests (snd (snd (SaveServiceAccountToken opts w')))
                   = requests (snd (snd (SaveServiceAccountToken opts w))))"
proof -
  define w' where "w' = w\<lparr>serviceaccounts :=
                         (serviceaccounts w)((''kube-system'', ''gitlab-admin'') \<mapsto> sa\<lparr>sa_Secrets := xs @ [m]\<rparr>)\<rparr>"
  have name: "scan_Secrets (sa_Secrets sa) = Inr (ref_Name m)"
    unfolding assms(3) by (rule scan_Secrets_first_match [OF assms(4,5)])
  have ne: "ref_Name m \<noteq> ''''"
    by (rule matching_name_not_empty [OF assms(5)])
  have name': "scan_Secrets (sa_Secrets (sa\<lparr>sa_Secrets := xs @ [m]\<rparr>)) = Inr (ref_Name m)"
    using scan_Secrets_first_match [OF assms(4,5), of "[]"] by simp
  have found': "ServiceAccounts_lookup ''kube-system'' ''gitlab-admin'' w' = Inr (sa\<lparr>sa_Secrets := xs @ [m]\<rparr>)"
    using assms(2) by (simp add: w'_def ServiceAccounts_lookup_def split: option.splits)
  have secret': "Secrets_lookup ''kube-system'' (ref_Name m) w' = Secrets_lookup ''kube-system'' (ref_Name m) w"
    by (simp add: w'_def Secrets_lookup_def split: option.splits)
  have rq: "requests (snd (snd (SaveServiceAccountToken opts w))) =
             requests w @ [GetServiceAccount ''kube-system'' ''gitlab-admin'',
                           GetSecret ''kube-system'' (ref_Name m)]"
    by (rule SaveServiceAccountToken_requests [OF assms(1,2) name ne])
  have rq': "requests (snd (snd (SaveServiceAccountToken opts w'))) =
             requests w @ [GetServiceAccount ''kube-system'' ''gitlab-admin'',
                           GetSecret ''kube-system'' (ref_Name m)]"
    using SaveServiceAccountToken_requests [OF assms(1) found' name' ne] by (simp add: w'_def)
  have same: "fst (SaveServiceAccountToken opts w') = fst (SaveServiceAccountToken opts w)
               \<and> fst (snd (SaveServiceAccountToken opts w')) = fst (snd (SaveServiceAccountToken opts w))"
  proof (cases "Secrets_lookup ''kube-system'' (ref_Name m) w")
    case (Inl e)
    then show ?thesis
      using SaveServiceAccountToken_fetch_fails [OF assms(1,2) name ne Inl]
        SaveServiceAccountToken_fetch_fails [OF assms(1) found' name' ne, of e] secret'
      by simp
  next
    case (Inr secret)
    then show ?thesis
      using SaveServiceAccountToken_fetched [OF assms(1,2) name ne Inr]
        SaveServiceAccountToken_fetched [OF assms(1) found' name' ne, of secret] secret'
      by simp
  qed
  show ?thesis
    using name rq rq' same unfolding Let_def w'_def by simp
qed

theorem first_matching_reference_is_selected_witness:
  "KubeClientSet example_opts = Some (Clientset example_config)
   \<and> ServiceAccounts_lookup ''kube-system'' ''gitlab-admin''
        (cluster_with [''foo'', ''gitlab-admin-token-abc123'', ''gitlab-admin-token-zzz999'']
           [(''gitlab-admin-token-abc123'', ''tok1''), (''gitlab-admin-token-zzz999'', ''tok2'')])
       = Inr (admin_account [''foo'', ''gitlab-admin-token-abc123'', ''gitlab-admin-token-zzz999''])
   \<and> sa_Secrets (admin_account [''foo'', ''gitlab-admin-token-abc123'', ''gitlab-admin-token-zzz999''])
       = [secret_ref ''foo''] @ secret_ref ''gitlab-admin-token-abc123'' # [secret_ref ''gitlab-admin-token-zzz999'']
   \<and> MatchString_gitlab_admin_token (ref_Name (secret_ref ''foo'')) = Inr False
   \<and> MatchString_gitlab_admin_token (ref_Name (secret_ref ''gitlab-admin-token-abc123'')) = Inr True
   \<and> MatchString_gitlab_admin_token (ref_Name (secret_ref ''gitlab-admin-token-zzz999'')) = Inr True
   \<and> scan_Secrets (sa_Secrets (admin_account [''foo'', ''gitlab-admin-token-abc123'', ''gitlab-admin-token-zzz999'']))
       = Inr (ref_Name (secret_ref ''gitlab-admin-token-abc123''))
   \<and> requests (snd (snd (SaveServiceAccountToken example_opts
        (cluster_with [''foo'', ''gitlab-admin-token-abc123'', ''gitlab-admin-token-zzz999'']
           [(''gitlab-admin-token-abc123'', ''tok1''), (''gitlab-admin-token-zzz999'', ''tok2'')]))))
       = requests (cluster_with [''foo'', ''gitlab-admin-token-abc123'', ''gitlab-admin-token-zzz999'']
           [(''gitlab-admin-token-abc123'', ''tok1''), (''gitlab-admin-token-zzz999'', ''tok2'')])
         @ [GetServiceAccount ''kube-system'' ''gitlab-admin'',
            GetSecret ''kube-system'' (ref_Name (secret_ref ''gitlab-admin-token-abc123''))]"
proof -
  have h1: "KubeClientSet example_opts = Some (Clientset example_config)"
    by (simp add: example_opts_def)
  have h2: "ServiceAccounts_lookup ''kube-system'' ''gitlab-admin''
        (cluster_with [''foo'', ''gitlab-admin-token-abc123'', ''gitlab-admin-token-zzz999'']
           [(''gitlab-admin-token-abc123'', ''tok1''), (''gitlab-admin-token-zzz999'', ''tok2'')])
       = Inr (admin_account [''foo'', ''gitlab-admin-token-abc123'', ''gitlab-admin-token-zzz999''])"
    by (simp add: ServiceAccounts_lookup_def cluster_with_def empty_world_def)
  have h3: "sa_Secrets (admin_account [''foo'', ''gitlab-admin-token-abc123'', ''gitlab-admin-token-zzz999''])
       = [secret_ref ''foo''] @ secret_ref ''gitlab-admin-token-abc123'' # [secret_ref ''gitlab-admin-token-zzz999'']"
    by (simp add: admin_account_def)
  have miss: "MatchString_gitlab_admin_token (ref_Name (secret_ref ''foo'')) = Inr False"
    by (simp add: secret_ref_def MatchString_gitlab_admin_token_def)
  have h4: "\<forall>r\<in>set [secret_ref ''foo'']. MatchString_gitlab_admin_token (ref_Name r) = Inr False"
    by (simp add: miss)
  have h5: "MatchString_gitlab_admin_token (ref_Name (secret_ref ''gitlab-admin-token-abc123'')) = Inr True"
    by (simp add: secret_ref_def MatchString_gitlab_admin_token_def)
  have later: "MatchString_gitlab_admin_token (ref_Name (secret_ref ''gitlab-admin-token-zzz999'')) = Inr True"
    by (simp add: secret_ref_def MatchString_gitlab_admin_token_def)
  show ?thesis
    using h1 h2 h3 miss h5 later first_matching_reference_is_selected [OF h1 h2 h3 h4 h5]
    by blast
qed

text \<open>
  C10. When no secret reference of the ServiceAccount begins with \<open>gitlab-admin-token-\<close>,
  \<open>SaveServiceAccountToken\<close> still calls the Secret GET, with the empty string as the
  name. The client turns that call down, so the only request sent is the GET of the
  ServiceAccount, and the error returned is the error of that Secret GET wrapped with
  "unable to get serviceaccount token".
\<close>

theorem no_match_gets_the_empty_name:
  assumes "KubeClientSet opts = Some cs"
    and "ServiceAccounts_lookup ''kube-system'' ''gitlab-admin'' w = Inr sa"
    and "\<forall>r\<in>set (sa_Secrets sa). MatchString_gitlab_admin_token (ref_Name r) = Inr False"
  shows "refused (snd (snd (SaveServiceAccountToken opts w))) = refused w @ [GetSecret ''kube-system'' '''']
         \<and> requests (snd (snd (SaveServiceAccountToken opts w))) =
             requests w @ [GetServiceAccount ''kube-system'' ''gitlab-admin'']
         \<and> fst (Secrets_Get ''kube-system'' '''' v) = Inl (ApiError ''resource name may not be empty'')
         \<and> fst (SaveServiceAccountToken opts w)
             = Some (Wrapped (ApiError ''resource name may not be empty'') ''unable to get serviceaccount token'')"
proof -
  have name: "scan_Secrets (sa_Secrets sa) = Inr ''''"
    by (rule scan_Secrets_no_match [OF assms(3)])
  have get: "fst (Secrets_Get ''kube-system'' '''' v) = Inl (ApiError ''resource name may not be empty'')"
    by (simp add: Secrets_Get_def name_may_not_be_empty_def)
  show ?thesis
    using get SaveServiceAccountToken_no_name [OF assms(1,2) name]
    by simp
qed

theorem no_match_gets_the_empty_name_witness:
  "KubeClientSet example_opts = Some (Clientset example_config)
   \<and> ServiceAccounts_lookup ''kube-system'' ''gitlab-admin'' (cluster_with [''foo'', ''bar''] [(''bar'', ''tok'')])
       = Inr (admin_account [''foo'', ''bar''])
   \<and> sa_Secrets (admin_account [''foo'', ''bar'']) = [secret_ref ''foo'', secret_ref ''bar'']
   \<and> MatchString_gitlab_admin_token (ref_Name (secret_ref ''foo'')) = Inr False
   \<and> MatchString_gitlab_admin_token (ref_Name (secret_ref ''bar'')) = Inr False
   \<and> refused (snd (snd (SaveServiceAccountToken example_opts (cluster_with [''foo'', ''bar''] [(''bar'', ''tok'')]))))
       = refused (cluster_with [''foo'', ''bar''] [(''bar'', ''tok'')]) @ [GetSecret ''kube-system'' '''']
   \<and> requests (snd (snd (SaveServiceAccountToken example_opts (cluster_with [''foo'', ''bar''] [(''bar'', ''tok'')]))))
       = requests (cluster_with [''foo'', ''bar''] [(''bar'', ''tok'')])
         @ [GetServiceAccount ''kube-system'' ''gitlab-admin'']
   \<and> fst (SaveServiceAccountToken example_opts (cluster_with [''foo'', ''bar''] [(''bar'', ''tok'')]))
       = Some (Wrapped (ApiError ''resource name may not be empty'') ''unable to get serviceaccount token'')"
proof -
  have h1: "KubeClientSet example_opts = Some (Clientset example_config)"
    by (simp add: example_opts_def)
  have h2: "ServiceAccounts_lookup ''kube-system'' ''gitlab-admin'' (cluster_with [''foo'', ''bar''] [(''bar'', ''tok'')])
       = Inr (admin_account [''foo'', ''bar''])"
    by (simp add: ServiceAccounts_lookup_def cluster_with_def empty_world_def)
  have refs: "sa_Secrets (admin_account [''foo'', ''bar'']) = [secret_ref ''foo'', secret_ref ''bar'']"
    by (simp add: admin_account_def)
  have miss1: "MatchString_gitlab_admin_token (ref_Name (secret_ref ''foo'')) = Inr False"
    by (simp add: secret_ref_def MatchString_gitlab_admin_token_def)
  have miss2: "MatchString_gitlab_admin_token (ref_Name (secret_ref ''bar'')) = Inr False"
    by (simp add: secret_ref_def MatchString_gitlab_admin_token_def)
  have h3: "\<forall>r\<in>set (sa_Secrets (admin_account [''foo'', ''bar''])).
         MatchString_gitlab_admin_token (ref_Name r) = Inr False"
    by (simp add: refs miss1 miss2)
  show ?thesis
    using h1 h2 refs miss1 miss2 no_match_gets_the_empty_name [OF h1 h2 h3]
    by blast
qed

end
